theory Spec2Isabelle
  imports Complex_Main
begin

section \<open>Penrose tiling generator: the model\<close>

text \<open>
  The program (penrose.py) generates Penrose tilings by deflating half-tiles. Its
  coordinates are Python floats; the model takes them as real numbers, so \<open>math.sqrt\<close>,
  \<open>math.sin\<close>, \<open>math.cos\<close> and \<open>math.pi\<close> are \<^const>\<open>sqrt\<close>, \<^const>\<open>sin\<close>, \<^const>\<open>cos\<close>
  and \<^const>\<open>pi\<close>, and no rounding happens. Canvas sizes, the base length and the depth
  are Python ints and are integers here; \<open>//\<close> on them is floor division, which is
  \<open>div\<close> on \<^typ>\<open>int\<close>.
\<close>

subsection \<open>Geometry\<close>

type_synonym point = "real \<times> real"

text \<open>\<^verbatim>\<open>PHI = (math.sqrt(5) - 1) / 2\<close>\<close>

definition PHI :: real where
  "PHI = (sqrt 5 - 1) / 2"

text \<open>
  \<^verbatim>\<open>
  def goldenMidpoint(A, B):
      (x1, y1), (x2, y2) = (A, B)
      (dx, dy) = (x2 - x1, y2 - y1)
      return (x1 + PHI*dx, y1 + PHI*dy)
  \<close>
\<close>

fun goldenMidpoint :: "point \<Rightarrow> point \<Rightarrow> point" where
  "goldenMidpoint (x1, y1) (x2, y2) =
     (let dx = x2 - x1; dy = y2 - y1
      in (x1 + PHI * dx, y1 + PHI * dy))"

subsection \<open>Half-tiles\<close>

text \<open>
  The four leaf classes \<open>Kite\<close>, \<open>Dart\<close> (of \<open>KiteDart\<close>) and \<open>Acute\<close>, \<open>Obtuse\<close>
  (of \<open>Rhomb\<close>) share the constructor \<open>Isoceles.__init__(self, apex, vertex1, vertex2)\<close>,
  which stores its three positional arguments in the fields of the same names. The
  discriminators \<open>is_Kite\<close>, ... tell a tile's class.
\<close>

datatype tile =
    is_Kite: Kite (apex: point) (vertex1: point) (vertex2: point)
  | is_Dart: Dart (apex: point) (vertex1: point) (vertex2: point)
  | is_Acute: Acute (apex: point) (vertex1: point) (vertex2: point)
  | is_Obtuse: Obtuse (apex: point) (vertex1: point) (vertex2: point)

text \<open>The class a leaf class inherits from.\<close>

datatype family = KiteDart | Rhomb

fun family_of :: "tile \<Rightarrow> family" where
  "family_of (Kite a v1 v2) = KiteDart"
| "family_of (Dart a v1 v2) = KiteDart"
| "family_of (Acute a v1 v2) = Rhomb"
| "family_of (Obtuse a v1 v2) = Rhomb"

subsection \<open>Deflation\<close>

text \<open>
  Each \<open>deflate\<close> method reads the fields of \<open>self\<close> and returns a tuple of new tiles;
  the only consumer, \<open>list.extend\<close>, reads the tuple in order, so it is a list here.
\<close>

definition Kite_deflate :: "tile \<Rightarrow> tile list" where
  "Kite_deflate self =
     (let newPoint1 = goldenMidpoint (vertex1 self) (apex self);
          newPoint2 = goldenMidpoint (apex self) (vertex2 self);
          dart = Dart newPoint1 newPoint2 (apex self);
          kite1 = Kite (vertex1 self) newPoint1 newPoint2;
          kite2 = Kite (vertex1 self) (vertex2 self) newPoint2
      in [dart, kite1, kite2])"

definition Dart_deflate :: "tile \<Rightarrow> tile list" where
  "Dart_deflate self =
     (let newPoint = goldenMidpoint (vertex2 self) (vertex1 self);
          kite = Kite (vertex2 self) newPoint (apex self);
          dart = Dart newPoint (apex self) (vertex1 self)
      in [kite, dart])"

definition Acute_deflate :: "tile \<Rightarrow> tile list" where
  "Acute_deflate self =
     (let newPoint = goldenMidpoint (apex self) (vertex1 self);
          obtuse = Obtuse newPoint (vertex2 self) (apex self);
          acute = Acute (vertex2 self) newPoint (vertex1 self)
      in [obtuse, acute])"

definition Obtuse_deflate :: "tile \<Rightarrow> tile list" where
  "Obtuse_deflate self =
     (let newPoint1 = goldenMidpoint (vertex1 self) (apex self);
          newPoint2 = goldenMidpoint (vertex1 self) (vertex2 self);
          obtuse1 = Obtuse newPoint1 newPoint2 (vertex1 self);
          acute = Acute newPoint2 newPoint1 (apex self);
          obtuse2 = Obtuse newPoint2 (vertex2 self) (apex self)
      in [obtuse1, acute, obtuse2])"

text \<open>\<open>tile.deflate()\<close>: the method of the tile's own class.\<close>

fun deflate :: "tile \<Rightarrow> tile list" where
  "deflate (Kite a v1 v2) = Kite_deflate (Kite a v1 v2)"
| "deflate (Dart a v1 v2) = Dart_deflate (Dart a v1 v2)"
| "deflate (Acute a v1 v2) = Acute_deflate (Acute a v1 v2)"
| "deflate (Obtuse a v1 v2) = Obtuse_deflate (Obtuse a v1 v2)"

subsection \<open>Seed tiles\<close>

text \<open>
  \<^verbatim>\<open>
  def initialTiles(cx, cy, length):          # KiteDart
      (cx, cy) = (cx * 2//5, cy * 2//5)
      (left, right) = (cx - length/2, cx + length/2)
      midX = left + length * math.cos(math.pi / 5)
      height = length * math.sin(math.pi / 5)
      (top, bottom) = (cy - height/2, cy + height/2)
      return [Kite((left, bottom), (midX, top), (right, bottom))]
  \<close>
  The centre comes from \<open>data.width // 2\<close> and \<open>data.height // 2\<close>, so it is a pair of
  integers.
\<close>

definition KiteDart_initialTiles :: "int \<Rightarrow> int \<Rightarrow> real \<Rightarrow> tile list" where
  "KiteDart_initialTiles cx0 cy0 len =
     (let cx = cx0 * 2 div 5; cy = cy0 * 2 div 5;
          left = real_of_int cx - len / 2; right = real_of_int cx + len / 2;
          midX = left + len * cos (pi / 5);
          height = len * sin (pi / 5);
          top = real_of_int cy - height / 2; bottom = real_of_int cy + height / 2
      in [Kite (left, bottom) (midX, top) (right, bottom)])"

text \<open>
  \<^verbatim>\<open>
  def initialTiles(cx, cy, length):          # Rhomb
      cx = cx * 2 // 5
      width = length * math.sin(2 * math.pi / 5)
      height = length * PHI
      (left, right) = (cx - width/2, cx + width/2)
      (top, bottom) = (cy - height/2, cy + height/2)
      return [Acute((left, cy), (right, top), (right, bottom))]
  \<close>
\<close>

definition Rhomb_initialTiles :: "int \<Rightarrow> int \<Rightarrow> real \<Rightarrow> tile list" where
  "Rhomb_initialTiles cx0 cy len =
     (let cx = cx0 * 2 div 5;
          width = len * sin (2 * pi / 5);
          height = len * PHI;
          left = real_of_int cx - width / 2; right = real_of_int cx + width / 2;
          top = real_of_int cy - height / 2; bottom = real_of_int cy + height / 2
      in [Acute (left, real_of_int cy) (right, top) (right, bottom)])"

subsection \<open>The application state and regeneration\<close>

text \<open>
  The \<open>data\<close> object: \<open>run\<close> sets \<open>width\<close>, \<open>height\<close> and \<open>timerDelay\<close>, \<open>init\<close> sets
  the rest. The tile type is the string the code compares.
\<close>

record data =
  width :: int
  height :: int
  timerDelay :: int
  tiles :: "tile list"
  tileType :: string
  baseLength :: int
  depth :: int

text \<open>
  \<^verbatim>\<open>
  def deflateTiles(data):
      newTiles = []
      for tile in data.tiles:
          newTiles.extend(tile.deflate())
      data.tiles = newTiles
  \<close>
  The loop, with \<open>newTiles\<close> as its accumulator.
\<close>

fun deflateTiles_loop :: "tile list \<Rightarrow> tile list \<Rightarrow> tile list" where
  "deflateTiles_loop newTiles [] = newTiles"
| "deflateTiles_loop newTiles (t # rest) = deflateTiles_loop (newTiles @ deflate t) rest"

definition deflateTiles :: "data \<Rightarrow> data" where
  "deflateTiles d = d\<lparr>tiles := deflateTiles_loop [] (tiles d)\<rparr>"

text \<open>
  \<^verbatim>\<open>
  def refreshTiles(data):
      (cx, cy) = (data.width // 2, data.height // 2)
      initialLength = data.baseLength / PHI**data.depth
      if data.tileType == "Kite & Dart":
          data.tiles = KiteDart.initialTiles(cx, cy, initialLength)
      elif data.tileType == "Rhombs":
          data.tiles = Rhomb.initialTiles(cx, cy, initialLength)
      for _ in range(data.depth):
          deflateTiles(data)
  \<close>
  \<open>range(n)\<close> is empty for \<open>n \<le> 0\<close>, so the loop runs \<open>nat (depth d)\<close> times; the
  integer power of a float is \<^const>\<open>power_int\<close>. There is no \<open>else\<close>: with any other
  tile type the old tiles stay. \<open>PHI\<close> is positive, so the division is defined in the
  reals at every depth; a double \<open>PHI**depth\<close> underflows to zero only beyond depth
  1500, far past any tiling that fits in memory.
\<close>

fun refreshTiles_loop :: "nat \<Rightarrow> data \<Rightarrow> data" where
  "refreshTiles_loop 0 d = d"
| "refreshTiles_loop (Suc n) d = refreshTiles_loop n (deflateTiles d)"

definition refreshTiles :: "data \<Rightarrow> data" where
  "refreshTiles d =
     (let cx = width d div 2; cy = height d div 2;
          initialLength = real_of_int (baseLength d) / power_int PHI (depth d);
          d1 = (if tileType d = ''Kite & Dart''
                then d\<lparr>tiles := KiteDart_initialTiles cx cy initialLength\<rparr>
                else if tileType d = ''Rhombs''
                then d\<lparr>tiles := Rhomb_initialTiles cx cy initialLength\<rparr>
                else d)
      in refreshTiles_loop (nat (depth d)) d1)"

text \<open>
  \<^verbatim>\<open>
  def init(data):
      data.tiles = []
      data.tileType = "Rhombs"
      data.baseLength = 30
      data.depth = 0
      refreshTiles(data)
  \<close>
  with the fields \<open>run(width, height)\<close> has set before.
\<close>

definition init :: "int \<Rightarrow> int \<Rightarrow> data" where
  "init w h =
     refreshTiles \<lparr>width = w, height = h, timerDelay = 10000, tiles = [],
       tileType = ''Rhombs'', baseLength = 30, depth = 0\<rparr>"

text \<open>
  \<^verbatim>\<open>
  def keyPressed(event, data):
      if event.keysym == "Up":
          data.depth += 1
          refreshTiles(data)
      elif event.keysym == "Down":
          if data.depth > 0:
              data.depth -= 1
              refreshTiles(data)
      elif event.keysym == "Tab":
          data.tileType = "Kite & Dart" if data.tileType == "Rhombs" else "Rhombs"
          refreshTiles(data)
  \<close>
  The event is its \<open>keysym\<close>.
\<close>

definition keyPressed :: "string \<Rightarrow> data \<Rightarrow> data" where
  "keyPressed keysym d =
     (if keysym = ''Up'' then refreshTiles (d\<lparr>depth := depth d + 1\<rparr>)
      else if keysym = ''Down'' then
        (if depth d > 0 then refreshTiles (d\<lparr>depth := depth d - 1\<rparr>) else d)
      else if keysym = ''Tab'' then
        refreshTiles (d\<lparr>tileType := (if tileType d = ''Rhombs'' then ''Kite & Dart'' else ''Rhombs'')\<rparr>)
      else d)"

subsection \<open>The specification's regeneration\<close>

text \<open>
  The specification's reading of one generation-wide step: deflate every tile and
  concatenate the children, keeping the order of the tiles and of each tile's children.
\<close>

definition next_generation :: "tile list \<Rightarrow> tile list" where
  "next_generation ts = concat (map deflate ts)"

text \<open>
  The seed the specification's regeneration algorithm starts from (its steps 1 and 2):
  the one-tile list of the state's family, with edge length baseLength / PHI ^ depth.
\<close>

definition seed_of :: "data \<Rightarrow> tile list" where
  "seed_of d =
     (let initialLength = real_of_int (baseLength d) / PHI ^ nat (depth d)
      in if tileType d = ''Kite & Dart''
         then KiteDart_initialTiles (width d div 2) (height d div 2) initialLength
         else Rhomb_initialTiles (width d div 2) (height d div 2) initialLength)"

text \<open>The squared distance of two points, to measure the sides of a seed triangle.\<close>

definition sqdist :: "point \<Rightarrow> point \<Rightarrow> real" where
  "sqdist A B = (fst B - fst A)\<^sup>2 + (snd B - snd A)\<^sup>2"

text \<open>
  The state \<open>run(800, 500)\<close> and \<open>init\<close> set up, with the tile type and the depth
  left open and no tiles yet.
\<close>

definition example_state :: "string \<Rightarrow> int \<Rightarrow> data" where
  "example_state ty n =
     \<lparr>width = 800, height = 500, timerDelay = 10000, tiles = [],
      tileType = ty, baseLength = 30, depth = n\<rparr>"

section \<open>Deflation rules\<close>

text \<open>
  C1. Deflating a Kite half-tile gives exactly the three tiles
  Dart(P1, P2, apex), Kite(vertex1, P1, P2), Kite(vertex1, vertex2, P2), in this order,
  with P1 = goldenMidpoint(vertex1, apex) and P2 = goldenMidpoint(apex, vertex2);
  deflating a Dart half-tile gives exactly the two tiles Kite(vertex2, P, apex),
  Dart(P, apex, vertex1), with P = goldenMidpoint(vertex2, vertex1). The arguments of
  each constructor are the apex, vertex1 and vertex2 of the new tile, in this order.
\<close>

theorem deflate_Kite_Dart:
  "deflate (Kite a v1 v2) =
     [Dart (goldenMidpoint v1 a) (goldenMidpoint a v2) a,
      Kite v1 (goldenMidpoint v1 a) (goldenMidpoint a v2),
      Kite v1 v2 (goldenMidpoint a v2)]
   \<and> deflate (Dart a v1 v2) =
     [Kite v2 (goldenMidpoint v2 v1) a,
      Dart (goldenMidpoint v2 v1) a v1]
   \<and> apex (Kite p q r) = p \<and> vertex1 (Kite p q r) = q \<and> vertex2 (Kite p q r) = r
   \<and> apex (Dart p q r) = p \<and> vertex1 (Dart p q r) = q \<and> vertex2 (Dart p q r) = r"
  by (simp add: Kite_deflate_def Dart_deflate_def Let_def)

text \<open>
  C2. Deflating an Acute half-tile gives exactly the two tiles Obtuse(P, vertex2, apex),
  Acute(vertex2, P, vertex1), in this order, with P = goldenMidpoint(apex, vertex1);
  deflating an Obtuse half-tile gives exactly the three tiles Obtuse(P1, P2, vertex1),
  Acute(P2, P1, apex), Obtuse(P2, vertex2, apex), with P1 = goldenMidpoint(vertex1, apex)
  and P2 = goldenMidpoint(vertex1, vertex2). The arguments of each constructor are the
  apex, vertex1 and vertex2 of the new tile, in this order.
\<close>

theorem deflate_Acute_Obtuse:
  "deflate (Acute a v1 v2) =
     [Obtuse (goldenMidpoint a v1) v2 a,
      Acute v2 (goldenMidpoint a v1) v1]
   \<and> deflate (Obtuse a v1 v2) =
     [Obtuse (goldenMidpoint v1 a) (goldenMidpoint v1 v2) v1,
      Acute (goldenMidpoint v1 v2) (goldenMidpoint v1 a) a,
      Obtuse (goldenMidpoint v1 v2) v2 a]
   \<and> apex (Acute p q r) = p \<and> vertex1 (Acute p q r) = q \<and> vertex2 (Acute p q r) = r
   \<and> apex (Obtuse p q r) = p \<and> vertex1 (Obtuse p q r) = q \<and> vertex2 (Obtuse p q r) = r"
  by (simp add: Acute_deflate_def Obtuse_deflate_def Let_def)

section \<open>The golden-section point\<close>

text \<open>
  C7. For all points A and B, goldenMidpoint(A, B) is A + PHI * (B - A) in each
  coordinate, where PHI = (sqrt 5 - 1) / 2.
\<close>

theorem goldenMidpoint_formula:
  "goldenMidpoint A B =
     (fst A + PHI * (fst B - fst A), snd A + PHI * (snd B - snd A))
   \<and> PHI = (sqrt 5 - 1) / 2"
  by (cases A, cases B) (simp add: PHI_def)

section \<open>Generations\<close>

lemma deflateTiles_loop_concat:
  "deflateTiles_loop acc ts = acc @ concat (map deflate ts)"
  by (induction ts arbitrary: acc) simp_all

lemma deflateTiles_next: "deflateTiles d = d\<lparr>tiles := next_generation (tiles d)\<rparr>"
  by (simp add: deflateTiles_def deflateTiles_loop_concat next_generation_def)

lemma refreshTiles_loop_funpow:
  "refreshTiles_loop n d = d\<lparr>tiles := (next_generation ^^ n) (tiles d)\<rparr>"
proof (induction n arbitrary: d)
  case 0
  show ?case by simp
next
  case (Suc n)
  show ?case
    by (simp add: Suc.IH deflateTiles_next funpow_swap1)
qed

text \<open>What \<open>refreshTiles\<close> does with each of the two tile types the program sets.\<close>

lemma refreshTiles_KiteDart:
  assumes "tileType d = ''Kite & Dart''"
  shows "refreshTiles d =
    d\<lparr>tiles := (next_generation ^^ nat (depth d))
      (KiteDart_initialTiles (width d div 2) (height d div 2)
         (real_of_int (baseLength d) / power_int PHI (depth d)))\<rparr>"
  using assms by (simp add: refreshTiles_def Let_def refreshTiles_loop_funpow)

lemma refreshTiles_Rhombs:
  assumes "tileType d = ''Rhombs''"
  shows "refreshTiles d =
    d\<lparr>tiles := (next_generation ^^ nat (depth d))
      (Rhomb_initialTiles (width d div 2) (height d div 2)
         (real_of_int (baseLength d) / power_int PHI (depth d)))\<rparr>"
  using assms by (simp add: refreshTiles_def Let_def refreshTiles_loop_funpow)

lemma refreshTiles_other:
  assumes "tileType d \<noteq> ''Kite & Dart''" and "tileType d \<noteq> ''Rhombs''"
  shows "refreshTiles d = d\<lparr>tiles := (next_generation ^^ nat (depth d)) (tiles d)\<rparr>"
  using assms by (simp add: refreshTiles_def Let_def refreshTiles_loop_funpow)

lemma refreshTiles_frame:
  "width (refreshTiles d) = width d \<and> height (refreshTiles d) = height d
   \<and> timerDelay (refreshTiles d) = timerDelay d \<and> tileType (refreshTiles d) = tileType d
   \<and> baseLength (refreshTiles d) = baseLength d \<and> depth (refreshTiles d) = depth d"
  by (simp add: refreshTiles_def Let_def refreshTiles_loop_funpow)

lemma length_seed_of: "length (seed_of d) = 1"
  by (simp add: seed_of_def KiteDart_initialTiles_def Rhomb_initialTiles_def Let_def)

lemma refreshTiles_seed_of:
  assumes "tileType d = ''Kite & Dart'' \<or> tileType d = ''Rhombs''" and "0 \<le> depth d"
  shows "refreshTiles d = d\<lparr>tiles := (next_generation ^^ nat (depth d)) (seed_of d)\<rparr>"
proof -
  from assms(2) have p: "power_int PHI (depth d) = PHI ^ nat (depth d)"
    by (simp add: power_int_def)
  from assms(1) show ?thesis
  proof
    assume "tileType d = ''Kite & Dart''"
    then show ?thesis
      by (simp add: refreshTiles_KiteDart seed_of_def p)
  next
    assume "tileType d = ''Rhombs''"
    then show ?thesis
      by (simp add: refreshTiles_Rhombs seed_of_def p)
  qed
qed

text \<open>
  C6. For a state whose tile type is one of the two families and whose depth is not
  negative, regeneration builds the one-tile seed of that family with edge length
  baseLength / PHI ^ depth and applies the generation-wide step exactly depth times
  (at depth 0 the result is the seed); one generation-wide step, the loop of
  \<open>deflateTiles\<close>, maps deflate over the tiles and concatenates the children in order.
  Nothing but the tile list changes.
\<close>

theorem refreshTiles_regenerates:
  assumes "tileType d = ''Kite & Dart'' \<or> tileType d = ''Rhombs''" and "0 \<le> depth d"
  shows "refreshTiles d = d\<lparr>tiles := (next_generation ^^ nat (depth d)) (seed_of d)\<rparr>
    \<and> length (seed_of d) = 1
    \<and> (depth d = 0 \<longrightarrow> tiles (refreshTiles d) = seed_of d)
    \<and> deflateTiles d = d\<lparr>tiles := concat (map deflate (tiles d))\<rparr>"
  using assms
  by (simp add: refreshTiles_seed_of length_seed_of deflateTiles_next next_generation_def)

theorem refreshTiles_regenerates_witness:
  "tiles (refreshTiles (example_state ''Rhombs'' 1)) =
     next_generation (Rhomb_initialTiles 400 250 (30 / PHI))
   \<and> tiles (refreshTiles (example_state ''Kite & Dart'' 0)) = KiteDart_initialTiles 400 250 30"
  using refreshTiles_regenerates [of "example_state ''Rhombs'' 1"]
    refreshTiles_regenerates [of "example_state ''Kite & Dart'' 0"]
  by (simp add: example_state_def seed_of_def)

subsection \<open>Determinism\<close>

text \<open>
  C9. Regeneration is deterministic in its inputs: two states with the same tile type
  (one of the two families), depth, base length and canvas size get the same tile list,
  whatever tiles they held before; in particular regenerating again changes nothing.
\<close>

theorem refreshTiles_deterministic:
  assumes "tileType d1 = ''Kite & Dart'' \<or> tileType d1 = ''Rhombs''"
    and "tileType d2 = tileType d1" and "depth d2 = depth d1"
    and "baseLength d2 = baseLength d1"
    and "width d2 = width d1" and "height d2 = height d1"
  shows "tiles (refreshTiles d1) = tiles (refreshTiles d2)
    \<and> refreshTiles (refreshTiles d1) = refreshTiles d1"
proof -
  from assms(1) have "tiles (refreshTiles d1) = tiles (refreshTiles d2)"
  proof
    assume k: "tileType d1 = ''Kite & Dart''"
    with assms(2) have "tileType d2 = ''Kite & Dart''" by simp
    with k assms show ?thesis by (simp add: refreshTiles_KiteDart)
  next
    assume r: "tileType d1 = ''Rhombs''"
    with assms(2) have "tileType d2 = ''Rhombs''" by simp
    with r assms show ?thesis by (simp add: refreshTiles_Rhombs)
  qed
  moreover from assms(1) have "refreshTiles (refreshTiles d1) = refreshTiles d1"
  proof
    assume k: "tileType d1 = ''Kite & Dart''"
    then have "tileType (refreshTiles d1) = ''Kite & Dart''" by (simp add: refreshTiles_frame)
    then show ?thesis
      by (simp add: refreshTiles_KiteDart [of "refreshTiles d1"] refreshTiles_frame)
         (simp add: refreshTiles_KiteDart k)
  next
    assume r: "tileType d1 = ''Rhombs''"
    then have "tileType (refreshTiles d1) = ''Rhombs''" by (simp add: refreshTiles_frame)
    then show ?thesis
      by (simp add: refreshTiles_Rhombs [of "refreshTiles d1"] refreshTiles_frame)
         (simp add: refreshTiles_Rhombs r)
  qed
  ultimately show ?thesis by simp
qed

theorem refreshTiles_deterministic_witness:
  "tiles (refreshTiles (example_state ''Rhombs'' 2)) =
     tiles (refreshTiles ((example_state ''Rhombs'' 2)
       \<lparr>tiles := KiteDart_initialTiles 0 0 1, timerDelay := 5\<rparr>))
   \<and> refreshTiles (refreshTiles (example_state ''Rhombs'' 2)) =
     refreshTiles (example_state ''Rhombs'' 2)"
  using refreshTiles_deterministic [of "example_state ''Rhombs'' 2"
    "(example_state ''Rhombs'' 2)\<lparr>tiles := KiteDart_initialTiles 0 0 1, timerDelay := 5\<rparr>"]
  by (simp add: example_state_def)

subsection \<open>Families\<close>

lemma family_of_deflate: "c \<in> set (deflate t) \<Longrightarrow> family_of c = family_of t"
  by (cases t)
    (auto simp: Kite_deflate_def Dart_deflate_def Acute_deflate_def Obtuse_deflate_def Let_def)

lemma family_of_next_generation:
  assumes "\<forall>t \<in> set ts. family_of t = f"
  shows "\<forall>c \<in> set (next_generation ts). family_of c = f"
proof
  fix c assume "c \<in> set (next_generation ts)"
  then obtain t where t: "t \<in> set ts" and c: "c \<in> set (deflate t)"
    by (auto simp: next_generation_def)
  from c have "family_of c = family_of t" by (rule family_of_deflate)
  with t assms show "family_of c = f" by simp
qed

lemma family_of_funpow:
  assumes "\<forall>t \<in> set ts. family_of t = f"
  shows "\<forall>c \<in> set ((next_generation ^^ n) ts). family_of c = f"
proof (induction n)
  case 0
  from assms show ?case by simp
next
  case (Suc n)
  from family_of_next_generation [OF Suc.IH] show ?case
    by simp
qed

lemma family_of_KiteDart_initialTiles:
  "\<forall>t \<in> set (KiteDart_initialTiles cx cy len). family_of t = KiteDart"
  by (simp add: KiteDart_initialTiles_def Let_def)

lemma family_of_Rhomb_initialTiles:
  "\<forall>t \<in> set (Rhomb_initialTiles cx cy len). family_of t = Rhomb"
  by (simp add: Rhomb_initialTiles_def Let_def)

lemma family_KiteDart_cases: "family_of t = KiteDart \<Longrightarrow> is_Kite t \<or> is_Dart t"
  by (cases t) simp_all

lemma family_Rhomb_cases: "family_of t = Rhomb \<Longrightarrow> is_Acute t \<or> is_Obtuse t"
  by (cases t) simp_all

lemma family_of_refreshTiles_KiteDart:
  assumes "tileType d = ''Kite & Dart''" and "t \<in> set (tiles (refreshTiles d))"
  shows "family_of t = KiteDart"
proof -
  let ?seed = "KiteDart_initialTiles (width d div 2) (height d div 2)
     (real_of_int (baseLength d) / power_int PHI (depth d))"
  from assms have "t \<in> set ((next_generation ^^ nat (depth d)) ?seed)"
    by (simp add: refreshTiles_KiteDart)
  with family_of_funpow [OF family_of_KiteDart_initialTiles, of "nat (depth d)"]
  show ?thesis by blast
qed

lemma family_of_refreshTiles_Rhombs:
  assumes "tileType d = ''Rhombs''" and "t \<in> set (tiles (refreshTiles d))"
  shows "family_of t = Rhomb"
proof -
  let ?seed = "Rhomb_initialTiles (width d div 2) (height d div 2)
     (real_of_int (baseLength d) / power_int PHI (depth d))"
  from assms have "t \<in> set ((next_generation ^^ nat (depth d)) ?seed)"
    by (simp add: refreshTiles_Rhombs)
  with family_of_funpow [OF family_of_Rhomb_initialTiles, of "nat (depth d)"]
  show ?thesis by blast
qed

text \<open>
  C10. Deflation stays inside a family: the children of a Kite or a Dart are Kites and
  Darts, the children of an Acute or an Obtuse are Acutes and Obtuses. So the
  generation-wide step keeps a one-family generation in its family, and every tile list
  that regeneration builds for one of the two tile types is of one family: Kites and
  Darts for "Kite & Dart", Acutes and Obtuses for "Rhombs".
\<close>

theorem family_homogeneity:
  "(\<forall>c \<in> set (deflate (Kite a v1 v2)) \<union> set (deflate (Dart a v1 v2)). is_Kite c \<or> is_Dart c)
   \<and> (\<forall>c \<in> set (deflate (Acute a v1 v2)) \<union> set (deflate (Obtuse a v1 v2)).
         is_Acute c \<or> is_Obtuse c)
   \<and> ((\<forall>t \<in> set (tiles d). family_of t = f) \<longrightarrow>
         (\<forall>c \<in> set (tiles (deflateTiles d)). family_of c = f))
   \<and> (tileType d = ''Kite & Dart'' \<longrightarrow>
         (\<forall>t \<in> set (tiles (refreshTiles d)). is_Kite t \<or> is_Dart t))
   \<and> (tileType d = ''Rhombs'' \<longrightarrow>
         (\<forall>t \<in> set (tiles (refreshTiles d)). is_Acute t \<or> is_Obtuse t))"
proof (intro conjI impI ballI)
  fix c assume "c \<in> set (deflate (Kite a v1 v2)) \<union> set (deflate (Dart a v1 v2))"
  then show "is_Kite c \<or> is_Dart c"
    by (auto simp: Kite_deflate_def Dart_deflate_def Let_def)
next
  fix c assume "c \<in> set (deflate (Acute a v1 v2)) \<union> set (deflate (Obtuse a v1 v2))"
  then show "is_Acute c \<or> is_Obtuse c"
    by (auto simp: Acute_deflate_def Obtuse_deflate_def Let_def)
next
  fix c assume "\<forall>t \<in> set (tiles d). family_of t = f" and "c \<in> set (tiles (deflateTiles d))"
  with family_of_next_generation [of "tiles d" f] show "family_of c = f"
    by (simp add: deflateTiles_next)
next
  fix t assume "tileType d = ''Kite & Dart''" and "t \<in> set (tiles (refreshTiles d))"
  then show "is_Kite t \<or> is_Dart t"
    by (intro family_KiteDart_cases family_of_refreshTiles_KiteDart)
next
  fix t assume "tileType d = ''Rhombs''" and "t \<in> set (tiles (refreshTiles d))"
  then show "is_Acute t \<or> is_Obtuse t"
    by (intro family_Rhomb_cases family_of_refreshTiles_Rhombs)
qed

theorem family_homogeneity_witness:
  "map family_of (tiles (refreshTiles (example_state ''Kite & Dart'' 1))) =
     [KiteDart, KiteDart, KiteDart]
   \<and> map family_of (tiles (refreshTiles (example_state ''Rhombs'' 1))) = [Rhomb, Rhomb]
   \<and> map family_of (tiles (deflateTiles (refreshTiles (example_state ''Rhombs'' 0)))) =
     [Rhomb, Rhomb]"
  using family_homogeneity [of "(0, 0)" "(1, 0)" "(0, 1)" "example_state ''Kite & Dart'' 1" KiteDart]
    family_homogeneity [of "(0, 0)" "(1, 0)" "(0, 1)" "example_state ''Rhombs'' 1" Rhomb]
    family_homogeneity [of "(0, 0)" "(1, 0)" "(0, 1)" "refreshTiles (example_state ''Rhombs'' 0)" Rhomb]
  by (simp add: example_state_def refreshTiles_def deflateTiles_def Let_def
      KiteDart_initialTiles_def Rhomb_initialTiles_def
      Kite_deflate_def Acute_deflate_def)

section \<open>Key events\<close>

text \<open>
  C8. The "Down" key at depth 0 changes nothing: the whole state, with its depth, tile
  type and tile list, stays as it is and nothing is regenerated. At a depth above 0 it
  lowers the depth by one and regenerates.
\<close>

theorem keyPressed_Down:
  "(depth d = 0 \<longrightarrow> keyPressed ''Down'' d = d)
   \<and> (depth d > 0 \<longrightarrow>
        keyPressed ''Down'' d = refreshTiles (d\<lparr>depth := depth d - 1\<rparr>)
        \<and> depth (keyPressed ''Down'' d) = depth d - 1)"
  by (simp add: keyPressed_def refreshTiles_frame)

theorem keyPressed_Down_witness:
  "keyPressed ''Down'' (init 800 500) = init 800 500
   \<and> keyPressed ''Down'' (keyPressed ''Up'' (init 800 500)) = init 800 500"
proof -
  have i: "init 800 500 = (example_state ''Rhombs'' 0)\<lparr>tiles := Rhomb_initialTiles 400 250 30\<rparr>"
    by (simp add: init_def example_state_def refreshTiles_def Let_def)
  have u: "keyPressed ''Up'' (init 800 500) =
      (example_state ''Rhombs'' 1)\<lparr>tiles := next_generation (Rhomb_initialTiles 400 250 (30 / PHI))\<rparr>"
    by (simp add: i keyPressed_def example_state_def refreshTiles_Rhombs)
  have r: "refreshTiles (example_state ''Rhombs'' 0) = init 800 500"
    by (simp add: init_def example_state_def)
  from keyPressed_Down [of "init 800 500"] have "keyPressed ''Down'' (init 800 500) = init 800 500"
    by (simp add: i example_state_def)
  moreover from keyPressed_Down [of "keyPressed ''Up'' (init 800 500)"]
  have "keyPressed ''Down'' (keyPressed ''Up'' (init 800 500)) = init 800 500"
    unfolding u by (simp add: example_state_def refreshTiles_Rhombs i)
  ultimately show ?thesis by simp
qed

section \<open>Tile counts\<close>

text \<open>
  C5 (as amended). From the rhomb seed, which is one Acute tile, the generation-wide
  step gives one Obtuse and one Acute tile after one application and five tiles, three
  Obtuse and two Acute, after two.
\<close>

theorem rhomb_tile_counts:
  "(let g0 = d\<lparr>tiles := Rhomb_initialTiles cx cy len\<rparr>;
        g1 = deflateTiles g0;
        g2 = deflateTiles g1
    in map is_Acute (tiles g0) = [True]
     \<and> map is_Obtuse (tiles g1) = [True, False] \<and> map is_Acute (tiles g1) = [False, True]
     \<and> length (tiles g2) = 5
     \<and> length (filter is_Obtuse (tiles g2)) = 3
     \<and> length (filter is_Acute (tiles g2)) = 2)"
  by (simp add: Let_def deflateTiles_next next_generation_def Rhomb_initialTiles_def
      Acute_deflate_def Obtuse_deflate_def)

text \<open>The program's start state, deflated twice, has five tiles, not three.\<close>

theorem rhomb_tile_counts_counterexample:
  "length (tiles (deflateTiles (deflateTiles (init 800 500)))) \<noteq> 3"
  by (simp add: init_def refreshTiles_def Let_def deflateTiles_next next_generation_def
      Rhomb_initialTiles_def Acute_deflate_def Obtuse_deflate_def)

section \<open>Seeds\<close>

lemma sin_pi5_less_cos_pi5: "sin (pi / 5) < cos (pi / 5)"
proof -
  have "sin (pi / 5) < sin (pi / 4)"
  proof (rule sin_monotone_2pi)
    have "0 \<le> pi" by simp
    then show "- (pi / 2) \<le> pi / 5" by linarith
    have "0 < pi" by simp
    then show "pi / 5 < pi / 4" by linarith
    show "pi / 4 \<le> pi / 2" by simp
  qed
  also have "\<dots> = cos (pi / 4)"
    by (simp add: sin_45 cos_45)
  also have "\<dots> < cos (pi / 5)"
    by (rule cos_monotone_0_pi) simp_all
  finally show ?thesis .
qed

lemma cos_pi5_pos: "0 < cos (pi / 5)"
  by (rule cos_gt_zero) simp_all

lemma sin_2pi5_pos: "0 < sin (2 * pi / 5)"
  by (rule sin_gt_zero) simp_all

text \<open>
  C3 (as amended). For every centre and edge length, the Kite/Dart seed constructor
  returns one Kite half-tile; its apex is the bottom-left corner (left, bottom), its
  vertex1 is the top point, length * cos(pi/5) to the right of the left corner and
  length * sin(pi/5) above the bottom, and its vertex2 is the bottom-right corner, at
  distance length from the bottom-left one. So the triangle's height is
  length * sin(pi/5) and the horizontal offset of its top point is length * cos(pi/5).
\<close>

theorem KiteDart_initialTiles_seed:
  "(let left = real_of_int (cx * 2 div 5) - len / 2;
        bottom = real_of_int (cy * 2 div 5) + len * sin (pi / 5) / 2
    in KiteDart_initialTiles cx cy len =
         [Kite (left, bottom)
               (left + len * cos (pi / 5), bottom - len * sin (pi / 5))
               (left + len, bottom)])"
  by (simp add: KiteDart_initialTiles_def Let_def)

text \<open>
  At centre (400, 250) and length 30 the constructor's left corner has x = 145. The x of
  vertex1 is not 145, so vertex1 is not the bottom-left corner; the x of the apex is not
  145 + 30 * sin(pi/5), so the apex is not a top point offset by length * sin(pi/5); and
  the height, from the top point vertex1 down to the apex, is not 30 * cos(pi/5).
\<close>

theorem KiteDart_initialTiles_counterexample:
  "KiteDart_initialTiles 400 250 30 =
     [Kite (145, 100 + 15 * sin (pi / 5))
           (145 + 30 * cos (pi / 5), 100 - 15 * sin (pi / 5))
           (175, 100 + 15 * sin (pi / 5))]
   \<and> fst (vertex1 (hd (KiteDart_initialTiles 400 250 30))) \<noteq> 145
   \<and> fst (apex (hd (KiteDart_initialTiles 400 250 30))) \<noteq> 145 + 30 * sin (pi / 5)
   \<and> snd (apex (hd (KiteDart_initialTiles 400 250 30)))
       - snd (vertex1 (hd (KiteDart_initialTiles 400 250 30))) \<noteq> 30 * cos (pi / 5)"
  using sin_pi5_less_cos_pi5 cos_pi5_pos sin_gt_zero [of "pi / 5"]
  by (simp add: KiteDart_initialTiles_def Let_def)

subsection \<open>The rhomb seed in numbers\<close>

lemma sqrt5_bounds: "2.23606 < sqrt 5 \<and> sqrt 5 < 2.23607"
proof
  show "2.23606 < sqrt 5"
    by (rule real_less_rsqrt) (simp add: power2_eq_square)
  show "sqrt 5 < 2.23607"
    by (rule real_less_lsqrt) (simp_all add: power2_eq_square)
qed

lemma cos_pi5: "cos (pi / 5) = (1 + sqrt 5) / 4"
proof -
  define c where "c = cos (pi / 5)"
  have cpos: "0 < c"
    unfolding c_def by (rule cos_gt_zero) simp_all
  have "cos (3 * (pi / 5)) = cos (pi - 2 * (pi / 5))"
    by (simp add: field_simps)
  also have "\<dots> = - cos (2 * (pi / 5))"
    by (rule cos_pi_minus)
  finally have "4 * c ^ 3 - 3 * c = - (2 * c\<^sup>2 - 1)"
    unfolding c_def by (simp only: cos_treble_cos cos_double_cos)
  then have "(c + 1) * (4 * c\<^sup>2 - 2 * c - 1) = 0"
    by (simp add: algebra_simps power2_eq_square power3_eq_cube)
  with cpos have q: "4 * c\<^sup>2 - 2 * c - 1 = 0"
    by simp
  then have sq: "(4 * c - 1)\<^sup>2 = 5"
    by (simp add: algebra_simps power2_eq_square)
  have "0 \<le> 4 * c - 1"
  proof (rule ccontr)
    assume "\<not> 0 \<le> 4 * c - 1"
    then have "c < 1 / 4" by simp
    with cpos have "c\<^sup>2 < (1 / 4)\<^sup>2"
      by (intro power_strict_mono) simp_all
    with q cpos show False by (simp add: power2_eq_square)
  qed
  with sq have "sqrt 5 = 4 * c - 1"
    by (rule real_sqrt_unique)
  then show ?thesis
    unfolding c_def by simp
qed

lemma cos_2pi5: "cos (2 * pi / 5) = PHI / 2"
proof -
  have "cos (2 * pi / 5) = cos (2 * (pi / 5))" by simp
  also have "\<dots> = 2 * ((1 + sqrt 5) / 4)\<^sup>2 - 1"
    by (simp only: cos_double_cos cos_pi5)
  also have "\<dots> = PHI / 2"
    by (simp add: PHI_def power2_eq_square field_simps)
  finally show ?thesis .
qed

lemma sin_2pi5_sq: "(sin (2 * pi / 5))\<^sup>2 = (10 + 2 * sqrt 5) / 16"
proof -
  have "(sin (2 * pi / 5))\<^sup>2 = 1 - (PHI / 2)\<^sup>2"
    by (simp add: sin_squared_eq cos_2pi5)
  also have "\<dots> = (10 + 2 * sqrt 5) / 16"
    by (simp add: PHI_def power2_eq_square field_simps)
  finally show ?thesis .
qed

lemma sin_2pi5_bounds: "0.95105 < sin (2 * pi / 5) \<and> sin (2 * pi / 5) < 0.95106"
proof
  have pos: "0 \<le> sin (2 * pi / 5)"
    by (rule less_imp_le, rule sin_gt_zero) simp_all
  from sqrt5_bounds have lo: "(0.95105::real)\<^sup>2 < (sin (2 * pi / 5))\<^sup>2"
    unfolding sin_2pi5_sq by (simp add: power2_eq_square)
  from lo pos show "0.95105 < sin (2 * pi / 5)"
    by (rule power2_less_imp_less)
  from sqrt5_bounds have hi: "(sin (2 * pi / 5))\<^sup>2 < (0.95106::real)\<^sup>2"
    unfolding sin_2pi5_sq by (simp add: power2_eq_square)
  have "(0::real) \<le> 0.95106" by simp
  with hi show "sin (2 * pi / 5) < 0.95106"
    by (rule power2_less_imp_less)
qed

lemma PHI_bounds: "0.61803 < PHI \<and> PHI < 0.61804"
  using sqrt5_bounds by (simp add: PHI_def)

text \<open>
  In both seeds the two sides that meet at the apex have the given length, so the field
  the constructors fill as apex is the isosceles apex.
\<close>

lemma scaled_unit_vector:
  fixes len c s :: real
  assumes "s\<^sup>2 + c\<^sup>2 = 1"
  shows "(len * s)\<^sup>2 + (len * c)\<^sup>2 = len\<^sup>2"
proof -
  have "(len * s)\<^sup>2 + (len * c)\<^sup>2 = len\<^sup>2 * (s\<^sup>2 + c\<^sup>2)"
    by (simp only: power_mult_distrib distrib_left)
  with assms show ?thesis by simp
qed

lemma KiteDart_seed_legs:
  "(let t = hd (KiteDart_initialTiles cx cy len)
    in sqdist (apex t) (vertex1 t) = len\<^sup>2 \<and> sqdist (apex t) (vertex2 t) = len\<^sup>2)"
  using scaled_unit_vector [OF sin_cos_squared_add, of len "pi / 5"]
  by (simp add: KiteDart_initialTiles_def Let_def sqdist_def add.commute power2_minus)

lemma Rhomb_seed_legs:
  "(let t = hd (Rhomb_initialTiles cx cy len)
    in sqdist (apex t) (vertex1 t) = len\<^sup>2 \<and> sqdist (apex t) (vertex2 t) = len\<^sup>2)"
proof -
  have "len * cos (2 * pi / 5) = len * PHI / 2"
    by (simp add: cos_2pi5)
  with scaled_unit_vector [OF sin_cos_squared_add, of len "2 * pi / 5"]
  have "(len * sin (2 * pi / 5))\<^sup>2 + (len * PHI / 2)\<^sup>2 = len\<^sup>2"
    by simp
  then show ?thesis
    by (simp add: Rhomb_initialTiles_def Let_def sqdist_def power2_minus)
qed
text \<open>
  C4 (as amended). Regeneration with tile type "Rhombs", depth 0 and base length 30 on
  the 800 x 500 canvas, whose centre is (400, 250), gives exactly one Acute half-tile.
  Its apex is (160 - 15 * sin(2 pi/5), 250), about (145.73, 250); its vertex1 and
  vertex2 both have x = 160 + 15 * sin(2 pi/5), about 174.27, and y = 250 - 30 * PHI / 2
  and y = 250 + 30 * PHI / 2, about 240.73 and 259.27.
\<close>

theorem Rhombs_depth0_seed_tile:
  "tiles (refreshTiles (example_state ''Rhombs'' 0)) =
     [Acute (160 - 15 * sin (2 * pi / 5), 250)
            (160 + 15 * sin (2 * pi / 5), 250 - 30 * PHI / 2)
            (160 + 15 * sin (2 * pi / 5), 250 + 30 * PHI / 2)]
   \<and> tiles (init 800 500) = tiles (refreshTiles (example_state ''Rhombs'' 0))
   \<and> 145.73 < 160 - 15 * sin (2 * pi / 5) \<and> 160 - 15 * sin (2 * pi / 5) < 145.74
   \<and> 174.26 < 160 + 15 * sin (2 * pi / 5) \<and> 160 + 15 * sin (2 * pi / 5) < 174.27
   \<and> 240.72 < 250 - 30 * PHI / 2 \<and> 250 - 30 * PHI / 2 < 240.73
   \<and> 259.27 < 250 + 30 * PHI / 2 \<and> 250 + 30 * PHI / 2 < 259.28"
proof -
  have "tiles (refreshTiles (example_state ''Rhombs'' 0)) =
     [Acute (160 - 15 * sin (2 * pi / 5), 250)
            (160 + 15 * sin (2 * pi / 5), 250 - 30 * PHI / 2)
            (160 + 15 * sin (2 * pi / 5), 250 + 30 * PHI / 2)]"
    by (simp add: example_state_def refreshTiles_def Rhomb_initialTiles_def Let_def)
  moreover have "tiles (init 800 500) = tiles (refreshTiles (example_state ''Rhombs'' 0))"
    by (simp add: init_def example_state_def)
  moreover from sin_2pi5_bounds
  have "145.73 < 160 - 15 * sin (2 * pi / 5) \<and> 160 - 15 * sin (2 * pi / 5) < 145.74
      \<and> 174.26 < 160 + 15 * sin (2 * pi / 5) \<and> 160 + 15 * sin (2 * pi / 5) < 174.27"
    by simp
  moreover from PHI_bounds
  have "240.72 < 250 - 30 * PHI / 2 \<and> 250 - 30 * PHI / 2 < 240.73
      \<and> 259.27 < 250 + 30 * PHI / 2 \<and> 250 + 30 * PHI / 2 < 259.28"
    by simp
  ultimately show ?thesis by simp
qed

text \<open>
  The apex is not at (160, 250), and the x of vertex1 and vertex2 is not
  160 + 30 * sin(2 pi/5).
\<close>

theorem Rhombs_depth0_seed_tile_counterexample:
  "apex (hd (tiles (refreshTiles (example_state ''Rhombs'' 0)))) \<noteq> (160, 250)
   \<and> fst (vertex1 (hd (tiles (refreshTiles (example_state ''Rhombs'' 0)))))
       \<noteq> 160 + 30 * sin (2 * pi / 5)
   \<and> fst (vertex2 (hd (tiles (refreshTiles (example_state ''Rhombs'' 0)))))
       \<noteq> 160 + 30 * sin (2 * pi / 5)"
  using sin_2pi5_pos
  by (simp add: example_state_def refreshTiles_def Rhomb_initialTiles_def Let_def)

end
